theory Spec2Isabelle
  imports Complex_Main "HOL-Library.Word"
begin

unbundle bit_operations_syntax

section \<open>The mBot protocol engine: data model\<close>

text \<open>
  The embedding follows \<^verbatim>\<open>src/protocol/robots/makeblock/mbot/api.js\<close>. The private
  members of the source end in an underscore (\<^verbatim>\<open>handleSensorData_\<close>); the underscore is
  dropped here, the rest of each name is kept.

  Inbound frames and payloads are \<^verbatim>\<open>Uint8Array\<close>s: lists of 8-bit words. Bitwise
  operators of JavaScript work on the 32-bit two's-complement image of their operands:
  32-bit words. Integral JavaScript numbers below \<open>2 ^ 53\<close> in magnitude are \<open>int\<close>.
\<close>

type_synonym byte = "8 word"
type_synonym int32 = "32 word"

text \<open>The bytes of an outbound buffer, and the parameter object of a command (\<^verbatim>\<open>{}\<close> is \<open>[]\<close>).\<close>

type_synonym buffer = "byte list"
type_synonym params = "(string \<times> int) list"

text \<open>
  What a call \<^verbatim>\<open>this.handler[command](data)\<close> can return, and \<^verbatim>\<open>device.send\<close> can be
  handed: a buffer, as the encoders of the command table build it, or one of the values
  that the functions inherited from \<^verbatim>\<open>Object.prototype\<close> return: a string, a boolean,
  \<^verbatim>\<open>undefined\<close>, or the handler object itself.
\<close>

datatype jsvalue =
    Buffer buffer
  | Text string
  | Flag bool
  | Undefined
  | ThisHandler

text \<open>
  The enumeration \<^verbatim>\<open>cwc.protocol.makeblock.mbot.CallbackType\<close> is not part of the
  sources at hand; its five members that the engine uses are taken as a parameter,
  a record of the byte each of them stands for.
\<close>

record CallbackType =
  VERSION :: byte
  ULTRASONIC :: byte
  LINEFOLLOWER :: byte
  LIGHTSENSOR :: byte
  INNER_BUTTON :: byte

text \<open>
  The transport device is an external object. The engine reads its address and asks
  whether its link is connected; what it does to the device (send, reset) is recorded
  in the trace of effects below.
\<close>

record device =
  getAddress :: string
  device_isConnected :: bool

text \<open>
  Modelled from the spec: the event constructors of \<^verbatim>\<open>cwc.protocol.makeblock.mbot.Events\<close>,
  which the sources at hand do not contain. The spec lists ButtonPressed, LightnessSensorValue,
  LinefollowerSensorValue (left, right, raw) and UltrasonicSensorValue. The button event
  carries \<^verbatim>\<open>data[0]\<close>, which is \<^verbatim>\<open>undefined\<close> (\<open>None\<close>) for an empty payload.
\<close>

record linefollower_value =
  left :: bool
  right :: bool
  raw :: "byte list"

datatype event =
    ButtonPressed "byte option"
  | LightnessSensorValue real
  | LinefollowerSensorValue linefollower_value
  | UltrasonicSensorValue real

datatype log_entry =
    ErrorNotReady
  | InfoPreparing string
  | InfoFirmware "byte list"
  | InfoUnknownIndex "byte option" "byte option" "byte option" "byte list"

text \<open>
  Everything the engine does to its collaborators, in the order in which it happens:
  log lines, the registration of the receive listener on the device, values handed to
  \<^verbatim>\<open>device.send\<close>, \<^verbatim>\<open>device.reset\<close>, start and stop of the monitoring loop, and
  the events dispatched to subscribers.
\<close>

datatype effect =
    Log log_entry
  | Listen device
  | DeviceSend device jsvalue
  | DeviceReset device
  | MonitoringStart
  | MonitoringStop
  | DispatchEvent event

text \<open>
  The fields of \<^verbatim>\<open>cwc.protocol.makeblock.mbot.Api\<close> that change. The sensor cache is a
  JavaScript object keyed by the index type. The state of the stream reader, which the
  sources at hand do not contain, has an arbitrary type \<open>'r\<close>.
\<close>

record 'r Api =
  device :: "device option"
  prepared :: bool
  sensorDataCache :: "byte \<rightharpoonup> byte list"
  streamReader :: 'r
  trace :: "effect list"

text \<open>
  Calling \<^verbatim>\<open>undefined\<close> as a function, or reading a property of \<^verbatim>\<open>null\<close>, raises a
  TypeError. A method that can raise returns the outcome together with the state reached.
\<close>

datatype error = TypeError

definition and_then ::
  "(error + 'a) \<times> 's \<Rightarrow> ('s \<Rightarrow> (error + 'b) \<times> 's) \<Rightarrow> (error + 'b) \<times> 's" where
  "and_then r f = (case r of (Inl e, s) \<Rightarrow> (Inl e, s) | (Inr _, s) \<Rightarrow> f s)"

section \<open>Float and byte codec\<close>

text \<open>\<^verbatim>\<open>ToInt32\<close> of the language: the number modulo \<open>2 ^ 32\<close>, as a 32-bit pattern.\<close>

definition ToInt32 :: "int \<Rightarrow> int32" where
  "ToInt32 num = word_of_int num"

text \<open>\<^verbatim>\<open>x << n\<close>: the left operand through \<^verbatim>\<open>ToInt32\<close>, the result read as signed.\<close>

definition js_shl :: "int \<Rightarrow> nat \<Rightarrow> int" where
  "js_shl x n = sint (push_bit (n mod 32) (ToInt32 x))"

text \<open>
  \<^verbatim>\<open>return ( b1 << 24 ) + ( b2 << 16 ) + ( b3 << 8 ) + b4;\<close>
  The additions are additions of numbers: they do not wrap.
\<close>

definition fourBytesToInt :: "int \<Rightarrow> int \<Rightarrow> int \<Rightarrow> int \<Rightarrow> int" where
  "fourBytesToInt b1 b2 b3 b4 = js_shl b1 24 + js_shl b2 16 + js_shl b3 8 + b4"

text \<open>
  \<^verbatim>\<open>
  let sign = ( num >> 31 ) == 0 ? 1 : -1;
  let exponent = ( num >> 23 ) & 0xff;
  let mantissa = ( exponent == 0 ) ?
    ( num & 0x7fffff ) << 1 : ( num & 0x7fffff ) | 0x800000;
  return sign * mantissa * Math.pow( 2, exponent - 150 );
  \<close>
  \<^verbatim>\<open>>>\<close> is the arithmetic shift. The result is a real number. The source computes it in
  double precision, and there the two products are exact: the mantissa is an integer
  below \<open>2 ^ 24\<close>, the other factor is a power of two between \<open>2 ^ -150\<close> and \<open>2 ^ 105\<close>,
  so the product has at most 24 significant bits and lies in the normal range of a double
  (taking \<^verbatim>\<open>Math.pow\<close> to return powers of two exactly).
\<close>

definition intBitsToFloat :: "int \<Rightarrow> real" where
  "intBitsToFloat num =
     (let sign = (if signed_drop_bit 31 (ToInt32 num) = 0 then 1 else - 1 :: int);
          exponent = signed_drop_bit 23 (ToInt32 num) AND 0xff;
          mantissa = (if exponent = 0
                      then push_bit 1 (ToInt32 num AND 0x7fffff)
                      else (ToInt32 num AND 0x7fffff) OR 0x800000)
      in of_int sign * of_int (sint mantissa) * (2 powi (sint exponent - 150)))"

text \<open>
  \<^verbatim>\<open>parseFloat(x.toFixed(2))\<close>: the multiple of \<open>1/100\<close> nearest to \<open>x\<close>, a tie going
  away from zero; from \<open>10 ^ 21\<close> on, \<^verbatim>\<open>toFixed\<close> prints the number itself. The source
  returns the double nearest to this decimal; the model returns the decimal.
\<close>

definition toFixed2 :: "real \<Rightarrow> real" where
  "toFixed2 x =
     (if 10 ^ 21 \<le> \<bar>x\<bar> then x
      else sgn x * of_int \<lfloor>\<bar>x\<bar> * 100 + 1 / 2\<rfloor> / 100)"

text \<open>Reading a typed array: \<^verbatim>\<open>undefined\<close> (\<open>None\<close>) beyond its end.\<close>

definition js_index :: "'a list \<Rightarrow> nat \<Rightarrow> 'a option" where
  "js_index xs i = (if i < length xs then Some (xs ! i) else None)"

text \<open>A byte, or \<^verbatim>\<open>undefined\<close>, as the left operand of \<^verbatim>\<open><<\<close>: \<^verbatim>\<open>undefined\<close> counts as 0.\<close>

definition shift_operand :: "byte option \<Rightarrow> int" where
  "shift_operand b = (case b of None \<Rightarrow> 0 | Some v \<Rightarrow> uint v)"

text \<open>
  \<^verbatim>\<open>
  let intValue = this.fourBytesToInt_(
    dataBytes[3], dataBytes[2], dataBytes[1], dataBytes[0]);
  let result = parseFloat(this.intBitsToFloat_(intValue).toFixed(2));
  \<close>
  When \<^verbatim>\<open>dataBytes[0]\<close> is \<^verbatim>\<open>undefined\<close> the sum is \<^verbatim>\<open>NaN\<close>, which every bitwise
  operator of \<^verbatim>\<open>intBitsToFloat_\<close> reads as 0.
\<close>

definition parseFloatBytes :: "byte list \<Rightarrow> real" where
  "parseFloatBytes dataBytes =
     (case js_index dataBytes 0 of
        None \<Rightarrow> toFixed2 (intBitsToFloat 0)
      | Some b0 \<Rightarrow>
          toFixed2 (intBitsToFloat
            (fourBytesToInt (shift_operand (js_index dataBytes 3))
               (shift_operand (js_index dataBytes 2))
               (shift_operand (js_index dataBytes 1)) (uint b0))))"

section \<open>Commands\<close>

text \<open>
  The command table \<^verbatim>\<open>cwc.protocol.makeblock.mbot.Handler\<close> is not part of the sources at
  hand. It is a parameter \<open>handler\<close>: the functions found, by name, on the handler object
  and on \<^verbatim>\<open>Handler.prototype\<close> (the commands, and what calling \<^verbatim>\<open>constructor\<close> does, if
  it returns at all). \<open>handler command\<close> is \<open>None\<close> when there is no such member, or one
  that cannot be called. An encoder maps the parameter object to a value, a buffer for a
  command; the spec describes it as pure and total.
\<close>

type_synonym handler = "string \<rightharpoonup> (params \<Rightarrow> jsvalue)"

text \<open>
  The handler is an object, so a lookup that finds nothing in the table goes on to
  \<^verbatim>\<open>Object.prototype\<close>. These are its functions that return when called with the parameter
  object as their one argument:
  \<^verbatim>\<open>toString\<close> and \<^verbatim>\<open>toLocaleString\<close> return \<^verbatim>\<open>"[object Object]"\<close> (the table is taken
  not to redefine \<^verbatim>\<open>toString\<close>, which \<^verbatim>\<open>toLocaleString\<close> calls); \<^verbatim>\<open>valueOf\<close> returns the
  handler; \<^verbatim>\<open>hasOwnProperty\<close>, \<^verbatim>\<open>isPrototypeOf\<close> and \<^verbatim>\<open>propertyIsEnumerable\<close> return
  \<^verbatim>\<open>false\<close>, as the handler has no member named \<^verbatim>\<open>"[object Object]"\<close> and is no prototype
  of the parameter object; \<^verbatim>\<open>__lookupGetter__\<close> and \<^verbatim>\<open>__lookupSetter__\<close> return
  \<^verbatim>\<open>undefined\<close>. The remaining members raise a TypeError when called so
  (\<^verbatim>\<open>__defineGetter__\<close>, \<^verbatim>\<open>__defineSetter__\<close>) or are no functions (\<^verbatim>\<open>__proto__\<close>): for
  the caller they are as good as absent.
\<close>

definition Object_prototype :: "string \<rightharpoonup> (params \<Rightarrow> jsvalue)" where
  "Object_prototype name =
     (if name = ''toString'' \<or> name = ''toLocaleString'' then
        Some (\<lambda>data. Text ''[object Object]'')
      else if name = ''valueOf'' then Some (\<lambda>data. ThisHandler)
      else if name = ''hasOwnProperty'' \<or> name = ''isPrototypeOf''
              \<or> name = ''propertyIsEnumerable'' then
        Some (\<lambda>data. Flag False)
      else if name = ''__lookupGetter__'' \<or> name = ''__lookupSetter__'' then
        Some (\<lambda>data. Undefined)
      else None)"

text \<open>
  \<^verbatim>\<open>this.handler[command]\<close>: the table first, then \<^verbatim>\<open>Object.prototype\<close>; \<open>None\<close> when
  the lookup yields nothing that can be called.
\<close>

definition handler_member :: "handler \<Rightarrow> string \<rightharpoonup> (params \<Rightarrow> jsvalue)" where
  "handler_member handler command =
     (case handler command of
        Some encode \<Rightarrow> Some encode
      | None \<Rightarrow> Object_prototype command)"

text \<open>\<^verbatim>\<open>if (this.device) { this.device.send(buffer); }\<close>\<close>

definition send :: "'r Api \<Rightarrow> jsvalue \<Rightarrow> 'r Api" where
  "send s buffer =
     (case device s of
        None \<Rightarrow> s
      | Some d \<Rightarrow> s\<lparr>trace := trace s @ [DeviceSend d buffer]\<rparr>)"

text \<open>\<^verbatim>\<open>this.send(this.handler[command](data));\<close>\<close>

definition exec :: "handler \<Rightarrow> 'r Api \<Rightarrow> string \<Rightarrow> params \<Rightarrow> (error + unit) \<times> 'r Api" where
  "exec handler s command data =
     (case handler_member handler command of
        None \<Rightarrow> (Inl TypeError, s)
      | Some encode \<Rightarrow> (Inr (), send s (encode data)))"


section \<open>Connection life cycle\<close>

text \<open>\<^verbatim>\<open>return (this.device && this.device.isConnected()) ? true : false;\<close>\<close>

definition isConnected :: "'r Api \<Rightarrow> bool" where
  "isConnected s = (case device s of None \<Rightarrow> False | Some d \<Rightarrow> device_isConnected d)"

text \<open>
  \<^verbatim>\<open>
  if (enable && this.isConnected()) { this.monitoring.start(); }
  else if (!enable) { this.monitoring.stop(); }
  \<close>
\<close>

definition monitor :: "'r Api \<Rightarrow> bool \<Rightarrow> 'r Api" where
  "monitor s enable =
     (if enable \<and> isConnected s then s\<lparr>trace := trace s @ [MonitoringStart]\<rparr>
      else if \<not> enable then s\<lparr>trace := trace s @ [MonitoringStop]\<rparr>
      else s)"

text \<open>
  \<^verbatim>\<open>
  this.events_.listen(this.device.getEventHandler(), ..ON_RECEIVE, this.handleOnReceive_.bind(this));
  this.exec('playTone', {'frequency': 524, 'duration': 240});
  this.exec('playTone', {'frequency': 584, 'duration': 240});
  this.exec('getVersion');
  this.monitor(true);
  this.prepared = true;
  \<close>
\<close>

definition prepare :: "handler \<Rightarrow> 'r Api \<Rightarrow> (error + unit) \<times> 'r Api" where
  "prepare handler s =
     (case device s of
        None \<Rightarrow> (Inl TypeError, s)
      | Some d \<Rightarrow>
          and_then (exec handler (s\<lparr>trace := trace s @ [Listen d]\<rparr>)
                      ''playTone'' [(''frequency'', 524), (''duration'', 240)])
            (\<lambda>s. and_then (exec handler s ''playTone'' [(''frequency'', 584), (''duration'', 240)])
              (\<lambda>s. and_then (exec handler s ''getVersion'' [])
                (\<lambda>s. (Inr (), (monitor s True)\<lparr>prepared := True\<rparr>)))))"

text \<open>
  \<^verbatim>\<open>
  if (!device) { this.log_.error('mBot is not ready yet...'); return false; }
  if (!this.prepared && device.isConnected()) {
    this.log_.info('Preparing bluetooth api for', device.getAddress());
    this.device = device;
    this.prepare();
  }
  return true;
  \<close>
\<close>

definition connect :: "handler \<Rightarrow> 'r Api \<Rightarrow> device option \<Rightarrow> (error + bool) \<times> 'r Api" where
  "connect handler s dev =
     (case dev of
        None \<Rightarrow> (Inr False, s\<lparr>trace := trace s @ [Log ErrorNotReady]\<rparr>)
      | Some d \<Rightarrow>
          if \<not> prepared s \<and> device_isConnected d
          then and_then
                 (prepare handler
                    (s\<lparr>trace := trace s @ [Log (InfoPreparing (getAddress d))],
                       device := Some d\<rparr>))
                 (\<lambda>s. (Inr True, s))
          else (Inr True, s))"

text \<open>
  \<^verbatim>\<open>
  this.sensorDataCache_ = {};
  if (this.device) { this.exec('stop'); this.device.reset(); }
  \<close>
\<close>

definition reset :: "handler \<Rightarrow> 'r Api \<Rightarrow> (error + unit) \<times> 'r Api" where
  "reset handler s =
     (let s1 = s\<lparr>sensorDataCache := Map.empty\<rparr>
      in case device s1 of
           None \<Rightarrow> (Inr (), s1)
         | Some d \<Rightarrow>
             and_then (exec handler s1 ''stop'' [])
               (\<lambda>s. (Inr (), s\<lparr>trace := trace s @ [DeviceReset d]\<rparr>)))"

section \<open>Inbound frames\<close>

text \<open>
  Modelled from the spec: \<^verbatim>\<open>cwc.utils.ByteTools.isArrayBufferEqual\<close>, which the sources at
  hand do not contain. The spec calls the comparison bytewise equality.
\<close>

definition isArrayBufferEqual :: "byte list \<Rightarrow> byte list \<Rightarrow> bool" where
  "isArrayBufferEqual data1 data2 = (data1 = data2)"

text \<open>\<^verbatim>\<open>this.eventHandler.dispatchEvent(event(data));\<close>\<close>

definition dispatchSensorEvent :: "'r Api \<Rightarrow> byte \<Rightarrow> ('a \<Rightarrow> event) \<Rightarrow> 'a \<Rightarrow> 'r Api" where
  "dispatchSensorEvent s index event data = s\<lparr>trace := trace s @ [DispatchEvent (event data)]\<rparr>"

text \<open>\<^verbatim>\<open>data[i] >= 64\<close>: false when \<^verbatim>\<open>data[i]\<close> is \<^verbatim>\<open>undefined\<close>.\<close>

definition js_ge :: "byte option \<Rightarrow> byte \<Rightarrow> bool" where
  "js_ge b n = (case b of None \<Rightarrow> False | Some v \<Rightarrow> n \<le> v)"

text \<open>
  \<^verbatim>\<open>
  if (opt_data_size && data.length < opt_data_size) { return; }
  if (this.sensorDataCache_[index_type] !== undefined &&
      cwc.utils.ByteTools.isArrayBufferEqual(this.sensorDataCache_[index_type], data)) {
    return;
  }
  this.sensorDataCache_[index_type] = data;
  switch (index_type) {
    case INNER_BUTTON: dispatch ButtonPressed, data[0]
    case LIGHTSENSOR:  dispatch LightnessSensorValue, this.parseFloatBytes_(data)
    case LINEFOLLOWER: dispatch LinefollowerSensorValue,
                         {'left': data[3] >= 64, 'right': data[2] >= 64, 'raw': data}
    case ULTRASONIC:   dispatch UltrasonicSensorValue, this.parseFloatBytes_(data)
  }
  \<close>
  An omitted \<^verbatim>\<open>opt_data_size\<close> is \<open>None\<close>; 0 is as good as omitted. The cases of the
  \<^verbatim>\<open>switch\<close> are tried in the order of the source.
\<close>

definition handleSensorData ::
  "CallbackType \<Rightarrow> 'r Api \<Rightarrow> byte \<Rightarrow> byte list \<Rightarrow> nat option \<Rightarrow> 'r Api" where
  "handleSensorData ct s index_type data opt_data_size =
     (if (case opt_data_size of None \<Rightarrow> False | Some n \<Rightarrow> n \<noteq> 0 \<and> length data < n) then s
      else if (case sensorDataCache s index_type of
                 None \<Rightarrow> False
               | Some cached \<Rightarrow> isArrayBufferEqual cached data) then s
      else
        let s1 = s\<lparr>sensorDataCache := (sensorDataCache s)(index_type \<mapsto> data)\<rparr>
        in if index_type = INNER_BUTTON ct then
             dispatchSensorEvent s1 index_type ButtonPressed (js_index data 0)
           else if index_type = LIGHTSENSOR ct then
             dispatchSensorEvent s1 index_type LightnessSensorValue (parseFloatBytes data)
           else if index_type = LINEFOLLOWER ct then
             dispatchSensorEvent s1 index_type LinefollowerSensorValue
               \<lparr>left = js_ge (js_index data 3) 64,
                right = js_ge (js_index data 2) 64,
                raw = data\<rparr>
           else if index_type = ULTRASONIC ct then
             dispatchSensorEvent s1 index_type UltrasonicSensorValue (parseFloatBytes data)
           else s1)"

text \<open>
  \<^verbatim>\<open>
  let len = dataBuffer[1];
  let indexType = dataBuffer[2];
  let dataType = dataBuffer[3];
  let data = dataBuffer.slice(4, dataBuffer.length);
  switch (indexType) {
    case VERSION: this.log_.info('mBot Firmware', ...decode(data)); break;
    case ULTRASONIC: case LINEFOLLOWER: case LIGHTSENSOR:
      this.handleSensorData_(indexType, data, 4); break;
    case INNER_BUTTON: this.handleSensorData_(indexType, data); break;
    default: this.log_.info('UNKNOWN index', len, indexType, dataType, dataBuffer);
  }
  \<close>
\<close>

definition handleData :: "CallbackType \<Rightarrow> 'r Api \<Rightarrow> byte list \<Rightarrow> 'r Api" where
  "handleData ct s dataBuffer =
     (let len = js_index dataBuffer 1;
          indexType = js_index dataBuffer 2;
          dataType = js_index dataBuffer 3;
          data = drop 4 dataBuffer;
          unknown = s\<lparr>trace := trace s @ [Log (InfoUnknownIndex len indexType dataType dataBuffer)]\<rparr>
      in case indexType of
           None \<Rightarrow> unknown
         | Some t \<Rightarrow>
             if t = VERSION ct then s\<lparr>trace := trace s @ [Log (InfoFirmware data)]\<rparr>
             else if t = ULTRASONIC ct \<or> t = LINEFOLLOWER ct \<or> t = LIGHTSENSOR ct then
               handleSensorData ct s t data (Some 4)
             else if t = INNER_BUTTON ct then handleSensorData ct s t data None
             else unknown)"

text \<open>
  The loop of \<^verbatim>\<open>handleOnReceive_\<close> over the frames:
  \<^verbatim>\<open>if (dataBuffer.length > 4) { this.handleData_(dataBuffer); }\<close>
\<close>

fun handleOnReceive_loop :: "CallbackType \<Rightarrow> 'r Api \<Rightarrow> byte list list \<Rightarrow> 'r Api" where
  "handleOnReceive_loop ct s [] = s"
| "handleOnReceive_loop ct s (dataBuffer # rest) =
     handleOnReceive_loop ct
       (if 4 < length dataBuffer then handleData ct s dataBuffer else s) rest"

text \<open>
  \<^verbatim>\<open>
  let data = this.streamReader_.readByHeaderAndFooter(e.data);
  if (!data) { return; }
  for (...) { ... }
  \<close>
  \<^verbatim>\<open>cwc.utils.StreamReader\<close> is not part of the sources at hand: its method is a parameter,
  from the reader's state and a chunk to the frames (\<open>None\<close> for a falsy result) and the
  reader's new state.
\<close>

definition handleOnReceive ::
  "CallbackType \<Rightarrow> ('r \<Rightarrow> byte list \<Rightarrow> byte list list option \<times> 'r) \<Rightarrow> 'r Api \<Rightarrow> byte list \<Rightarrow> 'r Api" where
  "handleOnReceive ct readByHeaderAndFooter s e_data =
     (case readByHeaderAndFooter (streamReader s) e_data of
        (None, r) \<Rightarrow> s\<lparr>streamReader := r\<rparr>
      | (Some data, r) \<Rightarrow> handleOnReceive_loop ct (s\<lparr>streamReader := r\<rparr>) data)"

text \<open>
  The constructor: no device, not prepared, an empty cache, nothing done yet. The argument
  is the initial state of the stream reader.
\<close>

definition new_Api :: "'r \<Rightarrow> 'r Api" where
  "new_Api r =
     \<lparr>device = None, prepared = False, sensorDataCache = Map.empty,
      streamReader = r, trace = []\<rparr>"

section \<open>The reference decoding of a single-precision pattern\<close>

text \<open>
  The fields of a 32-bit IEEE-754 pattern, and the value the standard gives it: sign in
  bit 31, biased exponent in bits 30 to 23, fraction in bits 22 to 0. A pattern with
  exponent 255 is an infinity or a NaN and has no real value.
\<close>

definition sign_field :: "int32 \<Rightarrow> bool" where
  "sign_field w = bit w 31"

definition exponent_field :: "int32 \<Rightarrow> int" where
  "exponent_field w = uint (take_bit 8 (drop_bit 23 w))"

definition fraction_field :: "int32 \<Rightarrow> int" where
  "fraction_field w = uint (take_bit 23 w)"

definition ieee754_single :: "int32 \<Rightarrow> real option" where
  "ieee754_single w =
     (let s = (if sign_field w then - 1 else 1 :: real);
          e = exponent_field w;
          f = fraction_field w
      in if e = 255 then None
         else if e = 0 then Some (s * 2 powi (- 126) * (of_int f / 2 ^ 23))
         else Some (s * 2 powi (e - 127) * (1 + of_int f / 2 ^ 23)))"

section \<open>Concrete inputs\<close>

text \<open>
  Values at which the theorems below are instantiated. The bytes of the index types, the
  command table and the devices are arbitrary: the sources at hand fix none of them.
\<close>

definition sample_types :: CallbackType where
  "sample_types =
     \<lparr>VERSION = 1, ULTRASONIC = 2, LINEFOLLOWER = 3, LIGHTSENSOR = 4, INNER_BUTTON = 5\<rparr>"

definition sample_encode :: "byte \<Rightarrow> params \<Rightarrow> jsvalue" where
  "sample_encode tag data = Buffer (tag # map (\<lambda>kv. word_of_int (snd kv)) data)"

definition sample_handler :: handler where
  "sample_handler =
     map_of [(''playTone'', sample_encode 34), (''getVersion'', sample_encode 0),
             (''stop'', sample_encode 5)]"

definition first_device :: device where
  "first_device = \<lparr>getAddress = ''00:0D:19:00:00:01'', device_isConnected = True\<rparr>"

definition second_device :: device where
  "second_device = \<lparr>getAddress = ''00:0D:19:00:00:02'', device_isConnected = True\<rparr>"

text \<open>An engine already prepared on the first device, with one cached payload.\<close>

definition prepared_engine :: "unit Api" where
  "prepared_engine =
     \<lparr>device = Some first_device, prepared = True,
      sensorDataCache = [3 \<mapsto> [0, 0, 70, 50]],
      streamReader = (), trace = []\<rparr>"

text \<open>A reader that returns the frames handed to it in one chunk each, and keeps nothing.\<close>

definition sample_reader :: "unit \<Rightarrow> byte list \<Rightarrow> byte list list option \<times> unit" where
  "sample_reader r chunk = (if chunk = [] then None else Some [chunk], ())"

section \<open>Properties of the codec\<close>

lemma sint_ToInt32: "sint (ToInt32 x) = (x + 2 ^ 31) mod 2 ^ 32 - 2 ^ 31"
  by (simp add: ToInt32_def int_word_sint)

lemma js_shl_eq: "n < 32 \<Longrightarrow> js_shl x n = sint (ToInt32 (x * 2 ^ n))"
proof -
  assume "n < 32"
  have "push_bit n (word_of_int x :: int32) = word_of_int (x * 2 ^ n)"
    by (simp add: push_bit_eq_mult)
  with \<open>n < 32\<close> show ?thesis
    by (simp add: js_shl_def ToInt32_def)
qed

lemma sint_ToInt32_small: "- (2 ^ 31) \<le> k \<Longrightarrow> k < 2 ^ 31 \<Longrightarrow> sint (ToInt32 k) = k"
  by (simp add: sint_ToInt32)

lemma sint_ToInt32_high: "2 ^ 31 \<le> k \<Longrightarrow> k < 2 ^ 32 \<Longrightarrow> sint (ToInt32 k) = k - 2 ^ 32"
proof -
  assume a: "2 ^ 31 \<le> k" "k < 2 ^ 32"
  have "(k + 2 ^ 31) mod 2 ^ 32 = (k + 2 ^ 31 - 2 ^ 32) mod (2 ^ 32 :: int)"
    by (simp only: minus_mod_self2)
  also have "\<dots> = k + 2 ^ 31 - 2 ^ 32"
    using a by (intro mod_pos_pos_trivial) simp_all
  finally show ?thesis
    by (simp add: sint_ToInt32)
qed

lemma js_shl_low:
  assumes "0 \<le> b" "b \<le> 255"
  shows "js_shl b 8 = b * 2 ^ 8" "js_shl b 16 = b * 2 ^ 16"
  using assms by (simp_all add: js_shl_eq sint_ToInt32_small)

lemma js_shl_24:
  assumes "0 \<le> b" "b \<le> 255"
  shows "js_shl b 24 = (if b < 128 then b * 2 ^ 24 else b * 2 ^ 24 - 2 ^ 32)"
  using assms by (simp add: js_shl_eq sint_ToInt32_small sint_ToInt32_high)

text \<open>
  C5. For bytes \<open>b1\<close>, \<open>b2\<close>, \<open>b3\<close>, \<open>b4\<close> between 0 and 255, \<open>fourBytesToInt\<close> returns the
  signed 32-bit reading of \<open>b1 * 2 ^ 24 + b2 * 2 ^ 16 + b3 * 2 ^ 8 + b4\<close>: \<open>b1\<close> is the most
  significant byte, \<open>b4\<close> the least significant one.
\<close>

theorem fourBytesToInt_signed:
  assumes "0 \<le> b1" "b1 \<le> 255" "0 \<le> b2" "b2 \<le> 255"
    and "0 \<le> b3" "b3 \<le> 255" "0 \<le> b4" "b4 \<le> 255"
  shows "fourBytesToInt b1 b2 b3 b4 =
           sint (ToInt32 (b1 * 2 ^ 24 + b2 * 2 ^ 16 + b3 * 2 ^ 8 + b4))"
proof (cases "b1 < 128")
  case True
  with assms show ?thesis
    by (simp add: fourBytesToInt_def js_shl_low js_shl_24 sint_ToInt32_small)
next
  case False
  with assms show ?thesis
    by (simp add: fourBytesToInt_def js_shl_low js_shl_24 sint_ToInt32_high)
qed

theorem fourBytesToInt_signed_witness:
  "(0 :: int) \<le> 195 \<and> (195 :: int) \<le> 255 \<and> (0 :: int) \<le> 72 \<and> (72 :: int) \<le> 255
   \<and> (0 :: int) \<le> 0 \<and> (0 :: int) \<le> 255 \<and> (0 :: int) \<le> 1 \<and> (1 :: int) \<le> 255
   \<and> fourBytesToInt 195 72 0 1 = sint (ToInt32 (195 * 2 ^ 24 + 72 * 2 ^ 16 + 0 * 2 ^ 8 + 1))
   \<and> fourBytesToInt 195 72 0 1 = - 1018691583"
  using fourBytesToInt_signed [of 195 72 0 1]
  by (simp add: ToInt32_def)

lemma sign_bit: "(signed_drop_bit 31 (w :: int32) = 0) = (\<not> bit w 31)"
proof
  assume "signed_drop_bit 31 w = 0"
  then have "\<not> bit (signed_drop_bit 31 w) 0" by simp
  then show "\<not> bit w 31" by (simp add: bit_signed_drop_bit_iff)
next
  assume "\<not> bit w 31"
  then show "signed_drop_bit 31 w = 0"
    by (intro bit_word_eqI) (auto simp add: bit_signed_drop_bit_iff not_less_eq_eq)
qed

lemma exponent_bits: "signed_drop_bit 23 (w :: int32) AND 0xff = take_bit 8 (drop_bit 23 w)"
proof -
  have "(0xff :: int32) = mask 8" by (simp add: mask_eq_exp_minus_1)
  then show ?thesis
    by (auto simp add: bit_eq_iff bit_simps)
qed

lemma fraction_bits: "(w :: int32) AND 0x7fffff = take_bit 23 w"
proof -
  have "(0x7fffff :: int32) = mask 23" by (simp add: mask_eq_exp_minus_1)
  then show ?thesis
    by (simp add: take_bit_eq_mask)
qed

lemma sint_small: "uint (x :: int32) < 2 ^ 31 \<Longrightarrow> sint x = uint x"
proof -
  assume a: "uint x < 2 ^ 31"
  have "signed_take_bit 31 (uint x) = uint x"
  proof (rule signed_take_bit_int_eq_self)
    have "- (2 ^ 31) \<le> (0 :: int)" by simp
    also have "0 \<le> uint x" by simp
    finally show "- (2 ^ 31) \<le> uint x" .
    show "uint x < 2 ^ 31" by (rule a)
  qed
  then show ?thesis by (simp add: sint_uint)
qed

lemma uint_take_bit_less: "uint (take_bit n (w :: int32)) < 2 ^ n"
  by (simp add: unsigned_take_bit_eq)

lemma or_implicit: "take_bit 23 (w :: int32) OR 0x800000 = take_bit 23 w + 0x800000"
proof -
  have "(0x800000 :: int32) = 2 ^ 23" by simp
  then show ?thesis
    by (metis disjunctive_add bit_take_bit_iff bit_exp_iff less_irrefl)
qed

lemma uint_mantissa:
  "uint (take_bit 23 (w :: int32) + 0x800000) = uint (take_bit 23 w) + 2 ^ 23"
proof -
  have "uint (take_bit 23 w) < 2 ^ 23" by (rule uint_take_bit_less)
  then show ?thesis
    by (simp add: uint_plus_if')
qed

lemma sint_exponent: "sint (signed_drop_bit 23 (w :: int32) AND 0xff) = exponent_field w"
proof -
  have "uint (take_bit 8 (drop_bit 23 w)) < 2 ^ 8" by (rule uint_take_bit_less)
  then have "uint (take_bit 8 (drop_bit 23 w)) < 2 ^ 31" by simp
  then show ?thesis
    by (simp only: exponent_bits exponent_field_def sint_small)
qed

lemma exponent_zero:
  "(signed_drop_bit 23 (w :: int32) AND 0xff = 0) = (exponent_field w = 0)"
  by (simp only: exponent_bits exponent_field_def uint_0_iff)

lemma sint_mantissa_normal:
  "sint ((w :: int32) AND 0x7fffff OR 0x800000) = fraction_field w + 2 ^ 23"
proof -
  have "uint (take_bit 23 w) < 2 ^ 23" by (rule uint_take_bit_less)
  then have "uint (take_bit 23 w + 0x800000) < 2 ^ 31"
    by (simp add: uint_mantissa)
  then show ?thesis
    by (simp only: fraction_bits or_implicit sint_small uint_mantissa fraction_field_def)
qed

lemma intBitsToFloat_normal_eq:
  assumes "exponent_field (ToInt32 num) \<noteq> 0"
  shows "intBitsToFloat num =
     (if sign_field (ToInt32 num) then - 1 else 1) *
       of_int (fraction_field (ToInt32 num) + 2 ^ 23) *
       2 powi (exponent_field (ToInt32 num) - 150)"
proof -
  have e: "signed_drop_bit 23 (ToInt32 num) AND 0xff \<noteq> 0"
    using assms by (simp only: exponent_zero not_False_eq_True)
  have "intBitsToFloat num =
      of_int (if \<not> bit (ToInt32 num) 31 then 1 else - 1) *
      of_int (fraction_field (ToInt32 num) + 2 ^ 23) *
      2 powi (exponent_field (ToInt32 num) - 150)"
    unfolding intBitsToFloat_def Let_def
    by (simp only: e if_False sint_exponent sint_mantissa_normal sign_bit)
  then show ?thesis
    by (simp add: sign_field_def)
qed

lemma pow_split: "(2 :: real) powi (e - 127) = 2 powi (e - 150) * 2 ^ 23"
proof -
  have "(2 :: real) powi (e - 127) = 2 powi ((e - 150) + 23)" by simp
  also have "\<dots> = 2 powi (e - 150) * 2 powi 23"
    by (rule power_int_add) simp
  finally show ?thesis by simp
qed

lemma intBitsToFloat_zero: "intBitsToFloat 0 = 0"
  by (simp add: intBitsToFloat_def ToInt32_def Let_def)

lemma fourBytesToInt_zero: "fourBytesToInt 0 0 0 0 = 0"
  by (simp add: fourBytesToInt_def js_shl_def ToInt32_def)

lemma toFixed2_zero: "toFixed2 0 = 0"
  by (simp add: toFixed2_def)

text \<open>
  C2. For every number whose 32-bit pattern has an exponent field other than 0 and 255,
  \<open>intBitsToFloat\<close> returns sign times mantissa times \<open>2 ^ (exponent - 150)\<close>, the sign
  from bit 31 and the mantissa the fraction with the implicit leading bit \<open>2 ^ 23\<close> set;
  this is the value the IEEE-754 standard gives the pattern. Moreover the pattern
  \<^verbatim>\<open>0x43480000\<close> decodes to 200 and the pattern 0 to 0. The same two values
  come out of \<open>parseFloatBytes\<close>, which reads the four bytes least significant first and
  rounds to two decimals.
\<close>

theorem intBitsToFloat_normal:
  assumes "exponent_field (ToInt32 num) \<noteq> 0" and "exponent_field (ToInt32 num) \<noteq> 255"
  shows "intBitsToFloat num =
           (if sign_field (ToInt32 num) then - 1 else 1) *
           of_int (fraction_field (ToInt32 num) + 2 ^ 23) *
           2 powi (exponent_field (ToInt32 num) - 150)
         \<and> ieee754_single (ToInt32 num) = Some (intBitsToFloat num)
         \<and> intBitsToFloat 0x43480000 = 200
         \<and> intBitsToFloat 0 = 0
         \<and> parseFloatBytes [0x00, 0x00, 0x48, 0x43] = 200
         \<and> parseFloatBytes [0, 0, 0, 0] = 0"
proof (intro conjI)
  show a: "intBitsToFloat num =
           (if sign_field (ToInt32 num) then - 1 else 1) *
           of_int (fraction_field (ToInt32 num) + 2 ^ 23) *
           2 powi (exponent_field (ToInt32 num) - 150)"
    using assms(1) by (rule intBitsToFloat_normal_eq)
  show "ieee754_single (ToInt32 num) = Some (intBitsToFloat num)"
    using assms by (simp add: ieee754_single_def Let_def a pow_split field_simps)
  show "intBitsToFloat 0x43480000 = 200"
    by (simp add: intBitsToFloat_def ToInt32_def Let_def)
  show "intBitsToFloat 0 = 0"
    by (rule intBitsToFloat_zero)
  show "parseFloatBytes [0x00, 0x00, 0x48, 0x43] = 200"
    by (simp add: parseFloatBytes_def js_index_def shift_operand_def fourBytesToInt_def
        js_shl_def toFixed2_def intBitsToFloat_def ToInt32_def Let_def)
  show "parseFloatBytes [0, 0, 0, 0] = 0"
    by (simp add: parseFloatBytes_def js_index_def shift_operand_def fourBytesToInt_zero
        intBitsToFloat_zero toFixed2_zero)
qed

theorem intBitsToFloat_normal_witness:
  "exponent_field (ToInt32 0x43480000) \<noteq> 0 \<and> exponent_field (ToInt32 0x43480000) \<noteq> 255
   \<and> ieee754_single (ToInt32 0x43480000) = Some 200"
  using intBitsToFloat_normal [of "0x43480000"]
  by (simp add: exponent_field_def ToInt32_def)

section \<open>Properties of the inbound path\<close>

lemma handleSensorData_cached:
  "sensorDataCache s i = Some d \<Longrightarrow> handleSensorData ct s i d z = s"
  by (simp add: handleSensorData_def isArrayBufferEqual_def)

lemma handleSensorData_fresh:
  assumes "\<forall>n. z = Some n \<longrightarrow> n \<le> length d" and "sensorDataCache s i \<noteq> Some d"
  shows "handleSensorData ct s i d z =
     (let s1 = s\<lparr>sensorDataCache := (sensorDataCache s)(i \<mapsto> d)\<rparr>
      in if i = INNER_BUTTON ct then
           dispatchSensorEvent s1 i ButtonPressed (js_index d 0)
         else if i = LIGHTSENSOR ct then
           dispatchSensorEvent s1 i LightnessSensorValue (parseFloatBytes d)
         else if i = LINEFOLLOWER ct then
           dispatchSensorEvent s1 i LinefollowerSensorValue
             \<lparr>left = js_ge (js_index d 3) 64, right = js_ge (js_index d 2) 64, raw = d\<rparr>
         else if i = ULTRASONIC ct then
           dispatchSensorEvent s1 i UltrasonicSensorValue (parseFloatBytes d)
         else s1)"
proof -
  have a: "\<not> (case z of None \<Rightarrow> False | Some n \<Rightarrow> n \<noteq> 0 \<and> length d < n)"
    using assms(1) by (cases z) (simp_all add: not_less)
  have b: "\<not> (case sensorDataCache s i of None \<Rightarrow> False
              | Some cached \<Rightarrow> isArrayBufferEqual cached d)"
    using assms(2) by (cases "sensorDataCache s i") (simp_all add: isArrayBufferEqual_def)
  show ?thesis
    unfolding handleSensorData_def by (simp only: a b if_False)
qed

lemma handleSensorData_rejected:
  assumes "\<not> (\<forall>n. z = Some n \<longrightarrow> n \<le> length d)"
  shows "handleSensorData ct s i d z = s"
proof -
  from assms obtain n where "z = Some n" and "length d < n" by (auto simp add: not_le)
  then show ?thesis by (simp add: handleSensorData_def)
qed

lemma dispatchSensorEvent_cache:
  "sensorDataCache (dispatchSensorEvent s i ev x) = sensorDataCache s"
  by (simp add: dispatchSensorEvent_def)

lemma dispatchSensorEvent_trace:
  "trace (dispatchSensorEvent s i ev x) = trace s @ [DispatchEvent (ev x)]"
  by (simp add: dispatchSensorEvent_def)

lemma handleSensorData_fresh_cache:
  assumes "\<forall>n. z = Some n \<longrightarrow> n \<le> length d" and "sensorDataCache s i \<noteq> Some d"
  shows "sensorDataCache (handleSensorData ct s i d z) = (sensorDataCache s)(i \<mapsto> d)"
  by (simp add: handleSensorData_fresh [OF assms] Let_def dispatchSensorEvent_cache)

lemma handleSensorData_accepts:
  assumes "i = INNER_BUTTON ct \<or> i = LIGHTSENSOR ct \<or> i = LINEFOLLOWER ct \<or> i = ULTRASONIC ct"
    and "\<forall>n. z = Some n \<longrightarrow> n \<le> length d"
    and "sensorDataCache s i \<noteq> Some d"
  shows "\<exists>e. trace (handleSensorData ct s i d z) = trace s @ [DispatchEvent e]"
proof -
  note f = handleSensorData_fresh [OF assms(2,3), of ct]
  consider (button) "i = INNER_BUTTON ct"
    | (light) "i \<noteq> INNER_BUTTON ct" "i = LIGHTSENSOR ct"
    | (line) "i \<noteq> INNER_BUTTON ct" "i \<noteq> LIGHTSENSOR ct" "i = LINEFOLLOWER ct"
    | (ultra) "i \<noteq> INNER_BUTTON ct" "i \<noteq> LIGHTSENSOR ct" "i \<noteq> LINEFOLLOWER ct"
        "i = ULTRASONIC ct"
    using assms(1) by blast
  then show ?thesis
  proof cases
    case button
    then show ?thesis
      unfolding f Let_def by (simp add: dispatchSensorEvent_trace)
  next
    case light
    then show ?thesis
      unfolding f Let_def by (simp add: dispatchSensorEvent_trace)
  next
    case line
    then show ?thesis
      unfolding f Let_def by (simp add: dispatchSensorEvent_trace)
  next
    case ultra
    then show ?thesis
      unfolding f Let_def by (simp add: dispatchSensorEvent_trace)
  qed
qed

lemma handleSensorData_cache_change:
  assumes "sensorDataCache (handleSensorData ct s i d z) k \<noteq> sensorDataCache s k"
  shows "k = i \<and> sensorDataCache s i \<noteq> Some d
         \<and> sensorDataCache (handleSensorData ct s i d z) i = Some d"
proof -
  have changed: "handleSensorData ct s i d z \<noteq> s"
    using assms by auto
  then have ok: "\<forall>n. z = Some n \<longrightarrow> n \<le> length d"
    using handleSensorData_rejected [of z d ct s i] by blast
  from changed have fresh: "sensorDataCache s i \<noteq> Some d"
    using handleSensorData_cached [of s i d ct z] by blast
  note c = handleSensorData_fresh_cache [OF ok fresh, of ct]
  from assms have "k = i"
    by (simp add: c split: if_splits)
  with fresh show ?thesis
    by (simp add: c)
qed

lemma handleSensorData_twice:
  "handleSensorData ct (handleSensorData ct s i d z) i d z = handleSensorData ct s i d z"
proof (cases "(\<forall>n. z = Some n \<longrightarrow> n \<le> length d) \<and> sensorDataCache s i \<noteq> Some d")
  case True
  then have "sensorDataCache (handleSensorData ct s i d z) i = Some d"
    by (simp add: handleSensorData_fresh_cache)
  then show ?thesis
    by (rule handleSensorData_cached)
next
  case False
  then have "handleSensorData ct s i d z = s"
    using handleSensorData_rejected [of z d ct s i] handleSensorData_cached [of s i d ct z]
    by blast
  then show ?thesis by simp
qed


text \<open>
  C1. A payload that is the cached value of its index type is suppressed: the call
  dispatches nothing and changes nothing. Delivering any payload twice in a row is the
  same as delivering it once, so the second delivery is always silent; and when the first
  delivery is accepted (a sensor index type, a payload of the required size that differs
  from the cached one) the two deliveries together dispatch exactly one event. A cache
  entry changes only at the index type delivered, only when the payload differs from the
  stored one, and then it becomes that payload.
\<close>

theorem handleSensorData_duplicate_suppressed:
  "(sensorDataCache s i = Some d \<longrightarrow> handleSensorData ct s i d z = s)
   \<and> handleSensorData ct (handleSensorData ct s i d z) i d z = handleSensorData ct s i d z
   \<and> ((i = INNER_BUTTON ct \<or> i = LIGHTSENSOR ct \<or> i = LINEFOLLOWER ct \<or> i = ULTRASONIC ct)
        \<and> (\<forall>n. z = Some n \<longrightarrow> n \<le> length d) \<and> sensorDataCache s i \<noteq> Some d
      \<longrightarrow> (\<exists>e. trace (handleSensorData ct (handleSensorData ct s i d z) i d z)
                 = trace s @ [DispatchEvent e]))
   \<and> (\<forall>k. sensorDataCache (handleSensorData ct s i d z) k \<noteq> sensorDataCache s k
        \<longrightarrow> k = i \<and> sensorDataCache s i \<noteq> Some d
            \<and> sensorDataCache (handleSensorData ct s i d z) i = Some d)"
proof (intro conjI impI allI)
  show "handleSensorData ct s i d z = s" if "sensorDataCache s i = Some d"
    using that by (rule handleSensorData_cached)
  show "handleSensorData ct (handleSensorData ct s i d z) i d z = handleSensorData ct s i d z"
    by (rule handleSensorData_twice)
  show "\<exists>e. trace (handleSensorData ct (handleSensorData ct s i d z) i d z)
                 = trace s @ [DispatchEvent e]"
    if a: "(i = INNER_BUTTON ct \<or> i = LIGHTSENSOR ct \<or> i = LINEFOLLOWER ct \<or> i = ULTRASONIC ct)
        \<and> (\<forall>n. z = Some n \<longrightarrow> n \<le> length d) \<and> sensorDataCache s i \<noteq> Some d"
  proof -
    have "\<exists>e. trace (handleSensorData ct s i d z) = trace s @ [DispatchEvent e]"
      using a [THEN conjunct1] a [THEN conjunct2, THEN conjunct1]
        a [THEN conjunct2, THEN conjunct2]
      by (rule handleSensorData_accepts)
    then show ?thesis
      by (simp only: handleSensorData_twice)
  qed
  fix k
  assume a: "sensorDataCache (handleSensorData ct s i d z) k \<noteq> sensorDataCache s k"
  note c = handleSensorData_cache_change [OF a]
  show "k = i" by (rule c [THEN conjunct1])
  show "sensorDataCache s i \<noteq> Some d" by (rule c [THEN conjunct2, THEN conjunct1])
  show "sensorDataCache (handleSensorData ct s i d z) i = Some d"
    by (rule c [THEN conjunct2, THEN conjunct2])
qed

theorem handleSensorData_duplicate_suppressed_witness:
  "sensorDataCache prepared_engine 3 = Some [0, 0, 70, 50]
   \<and> handleSensorData sample_types prepared_engine 3 [0, 0, 70, 50] (Some 4) = prepared_engine
   \<and> 3 = LINEFOLLOWER sample_types
   \<and> sensorDataCache (new_Api ()) 3 \<noteq> Some [0, 0, 70, 50]
   \<and> (\<exists>e. trace (handleSensorData sample_types
                  (handleSensorData sample_types (new_Api ()) 3 [0, 0, 70, 50] (Some 4))
                  3 [0, 0, 70, 50] (Some 4))
            = trace (new_Api ()) @ [DispatchEvent e])
   \<and> sensorDataCache (handleSensorData sample_types (new_Api ()) 3 [0, 0, 70, 50] (Some 4)) 3
       \<noteq> sensorDataCache (new_Api ()) 3
   \<and> sensorDataCache (handleSensorData sample_types (new_Api ()) 3 [0, 0, 70, 50] (Some 4)) 3
       = Some [0, 0, 70, 50]"
proof -
  note cached = handleSensorData_duplicate_suppressed
                  [of prepared_engine 3 "[0, 0, 70, 50]" sample_types "Some 4"]
  note fresh = handleSensorData_duplicate_suppressed
                  [of "new_Api ()" 3 "[0, 0, 70, 50]" sample_types "Some 4"]
  have h1: "sensorDataCache prepared_engine 3 = Some [0, 0, 70, 50]"
    by (simp add: prepared_engine_def)
  have h2: "3 = LINEFOLLOWER sample_types"
    by (simp add: sample_types_def)
  have h3: "sensorDataCache (new_Api ()) 3 \<noteq> Some [0, 0, 70, 50]"
    by (simp add: new_Api_def)
  have h4: "\<forall>n. Some (4 :: nat) = Some n \<longrightarrow> n \<le> length [0, 0, 70, 50 :: byte]"
    by simp
  have h5: "sensorDataCache (handleSensorData sample_types (new_Api ()) 3 [0, 0, 70, 50] (Some 4)) 3
       \<noteq> sensorDataCache (new_Api ()) 3"
    by (simp add: handleSensorData_fresh_cache [OF h4 h3]) (simp add: new_Api_def)
  have c1: "handleSensorData sample_types prepared_engine 3 [0, 0, 70, 50] (Some 4) = prepared_engine"
    using cached [THEN conjunct1] h1 by (rule mp)
  have c2: "\<exists>e. trace (handleSensorData sample_types
                  (handleSensorData sample_types (new_Api ()) 3 [0, 0, 70, 50] (Some 4))
                  3 [0, 0, 70, 50] (Some 4))
            = trace (new_Api ()) @ [DispatchEvent e]"
  proof (rule mp [OF fresh [THEN conjunct2, THEN conjunct2, THEN conjunct1]])
    from h2 h3 h4
    show "(3 = INNER_BUTTON sample_types \<or> 3 = LIGHTSENSOR sample_types
           \<or> 3 = LINEFOLLOWER sample_types \<or> 3 = ULTRASONIC sample_types)
        \<and> (\<forall>n. Some (4 :: nat) = Some n \<longrightarrow> n \<le> length [0, 0, 70, 50 :: byte])
        \<and> sensorDataCache (new_Api ()) 3 \<noteq> Some [0, 0, 70, 50]"
      by blast
  qed
  have c3: "sensorDataCache (handleSensorData sample_types (new_Api ()) 3 [0, 0, 70, 50] (Some 4)) 3
       = Some [0, 0, 70, 50]"
    using fresh [THEN conjunct2, THEN conjunct2, THEN conjunct2, THEN spec, of 3] h5
    by blast
  from h1 c1 h2 h3 c2 h5 c3 show ?thesis
    by (intro conjI)
qed

lemma handleSensorData_short:
  "length data < 4 \<Longrightarrow> handleSensorData ct s i data (Some 4) = s"
  by (simp add: handleSensorData_def)

text \<open>
  C3. With the minimum size 4 that \<open>handleData\<close> passes for the ultrasonic, line-follower
  and light sensors, a payload of fewer than 4 bytes leaves the engine exactly as it was:
  no event, no cache entry created or changed. The same holds for the whole frame handed
  to \<open>handleData\<close>, whose payload is what follows its first four bytes.
\<close>

theorem short_payload_dropped:
  assumes "length payload < 4"
  shows "handleSensorData ct s i payload (Some 4) = s
         \<and> ((t = ULTRASONIC ct \<or> t = LINEFOLLOWER ct \<or> t = LIGHTSENSOR ct) \<and> t \<noteq> VERSION ct
              \<longrightarrow> handleData ct s (h0 # h1 # t # dt # payload) = s)"
  using assms
  by (auto simp add: handleData_def js_index_def Let_def handleSensorData_short)

theorem short_payload_dropped_witness:
  "length [0, 0, 70 :: byte] < 4
   \<and> handleSensorData sample_types prepared_engine 2 [0, 0, 70] (Some 4) = prepared_engine
   \<and> 2 = ULTRASONIC sample_types \<and> 2 \<noteq> VERSION sample_types
   \<and> handleData sample_types prepared_engine [255, 85, 2, 2, 0, 0, 70] = prepared_engine"
proof -
  have h1: "length [0, 0, 70 :: byte] < 4" by simp
  have h2: "2 = ULTRASONIC sample_types \<and> 2 \<noteq> VERSION sample_types"
    by (simp add: sample_types_def)
  from short_payload_dropped [OF h1, of sample_types prepared_engine 2 2 255 85 2] h1 h2
  show ?thesis by blast
qed

text \<open>
  C4. A line-follower payload of at least 4 bytes that differs from the cached one
  dispatches exactly the event LinefollowerSensorValue with left = (byte 3 \<open>\<ge>\<close> 64),
  right = (byte 2 \<open>\<ge>\<close> 64) and the raw payload. The line-follower index type is taken to
  differ from those of the button and the light sensor, which the \<^verbatim>\<open>switch\<close> tries first.
\<close>

theorem linefollower_event:
  assumes "4 \<le> length data"
    and "sensorDataCache s (LINEFOLLOWER ct) \<noteq> Some data"
    and "LINEFOLLOWER ct \<noteq> INNER_BUTTON ct" and "LINEFOLLOWER ct \<noteq> LIGHTSENSOR ct"
  shows "trace (handleSensorData ct s (LINEFOLLOWER ct) data (Some 4)) =
           trace s @ [DispatchEvent (LinefollowerSensorValue
             \<lparr>left = (64 \<le> data ! 3), right = (64 \<le> data ! 2), raw = data\<rparr>)]"
  using assms
  by (auto simp add: handleSensorData_def isArrayBufferEqual_def dispatchSensorEvent_def
      js_ge_def js_index_def Let_def split: option.splits)

theorem linefollower_event_witness:
  "4 \<le> length [0, 0, 70, 50 :: byte]
   \<and> sensorDataCache (new_Api ()) (LINEFOLLOWER sample_types) \<noteq> Some [0, 0, 70, 50]
   \<and> LINEFOLLOWER sample_types \<noteq> INNER_BUTTON sample_types
   \<and> LINEFOLLOWER sample_types \<noteq> LIGHTSENSOR sample_types
   \<and> trace (handleSensorData sample_types (new_Api ()) (LINEFOLLOWER sample_types)
              [0, 0, 70, 50] (Some 4)) =
       [DispatchEvent (LinefollowerSensorValue
          \<lparr>left = False, right = True, raw = [0, 0, 70, 50]\<rparr>)]"
proof -
  have h1: "4 \<le> length [0, 0, 70, 50 :: byte]" by simp
  have h2: "sensorDataCache (new_Api ()) (LINEFOLLOWER sample_types) \<noteq> Some [0, 0, 70, 50]"
    by (simp add: new_Api_def)
  have h3: "LINEFOLLOWER sample_types \<noteq> INNER_BUTTON sample_types"
    by (simp add: sample_types_def)
  have h4: "LINEFOLLOWER sample_types \<noteq> LIGHTSENSOR sample_types"
    by (simp add: sample_types_def)
  have t: "trace (new_Api ()) = []" by (simp add: new_Api_def)
  have l: "\<not> (64 \<le> [0, 0, 70, 50 :: byte] ! 3)" by simp
  have r: "64 \<le> [0, 0, 70, 50 :: byte] ! 2" by simp
  from linefollower_event [OF h1 h2 h3 h4] h1 h2 h3 h4 t l r
  show ?thesis by simp
qed

lemma handleOnReceive_loop_append:
  "handleOnReceive_loop ct s (xs @ ys) = handleOnReceive_loop ct (handleOnReceive_loop ct s xs) ys"
  by (induction xs arbitrary: s) simp_all

lemma handleOnReceive_loop_all_short:
  "\<forall>b \<in> set frames. length b \<le> 4 \<Longrightarrow> handleOnReceive_loop ct s frames = s"
  by (induction frames arbitrary: s) simp_all

text \<open>
  C10. A frame of 4 bytes or fewer is skipped by the loop of \<open>handleOnReceive\<close>: the run
  is the same as without the frame. When every frame of a chunk is that short, only the
  state of the stream reader changes: no event, no cache entry. The acknowledgement
  packet \<^verbatim>\<open>0xFF 0x55 0x0D 0x0A\<close> is such a frame.
\<close>

theorem short_frame_discarded:
  assumes "length frame \<le> 4"
  shows "handleOnReceive_loop ct s (before @ frame # after) = handleOnReceive_loop ct s (before @ after)
    \<and> (reader (streamReader s) chunk = (Some frames, r) \<and> (\<forall>b \<in> set frames. length b \<le> 4)
        \<longrightarrow> handleOnReceive ct reader s chunk = s\<lparr>streamReader := r\<rparr>)
    \<and> handleOnReceive_loop ct s [[0xFF, 0x55, 0x0D, 0x0A]] = s"
  using assms
  by (simp add: handleOnReceive_loop_append handleOnReceive_def handleOnReceive_loop_all_short)

theorem short_frame_discarded_witness:
  "length [255, 85, 13, 10 :: byte] \<le> 4
   \<and> sample_reader (streamReader prepared_engine) [255, 85, 13, 10] = (Some [[255, 85, 13, 10]], ())
   \<and> handleOnReceive sample_types sample_reader prepared_engine [255, 85, 13, 10] = prepared_engine
   \<and> handleOnReceive_loop sample_types prepared_engine
        ([[255, 85, 3, 2, 0, 0, 70, 50, 13, 10]] @ [255, 85, 13, 10] # []) =
      handleOnReceive_loop sample_types prepared_engine ([[255, 85, 3, 2, 0, 0, 70, 50, 13, 10]] @ [])"
proof -
  have h1: "length [255, 85, 13, 10 :: byte] \<le> 4" by simp
  have h2: "sample_reader (streamReader prepared_engine) [255, 85, 13, 10] = (Some [[255, 85, 13, 10]], ())"
    by (simp add: sample_reader_def)
  have h3: "\<forall>b \<in> set [[255, 85, 13, 10 :: byte]]. length b \<le> 4" by simp
  have u: "prepared_engine\<lparr>streamReader := ()\<rparr> = prepared_engine" by simp
  from short_frame_discarded [OF h1, where reader = sample_reader and s = prepared_engine
      and chunk = "[255, 85, 13, 10]" and frames = "[[255, 85, 13, 10]]" and r = "()"
      and ct = sample_types and before = "[[255, 85, 3, 2, 0, 0, 70, 50, 13, 10]]"
      and after = "[]"]
    h1 h2 h3 u
  show ?thesis by simp
qed

section \<open>Properties of commands and of the connection life cycle\<close>

lemma exec_known:
  "handler command = Some encode \<Longrightarrow> device s = Some d \<Longrightarrow>
   exec handler s command data = (Inr (), s\<lparr>trace := trace s @ [DeviceSend d (encode data)]\<rparr>)"
  by (simp add: exec_def handler_member_def send_def)

lemma prepare_known:
  assumes "device s = Some d"
    and "handler ''playTone'' = Some playTone" and "handler ''getVersion'' = Some getVersion"
  shows "prepare handler s =
     (Inr (), (monitor (s\<lparr>trace := trace s @
        [Listen d,
         DeviceSend d (playTone [(''frequency'', 524), (''duration'', 240)]),
         DeviceSend d (playTone [(''frequency'', 584), (''duration'', 240)]),
         DeviceSend d (getVersion [])]\<rparr>) True)\<lparr>prepared := True\<rparr>)"
  using assms
  by (simp add: prepare_def and_then_def exec_known)

text \<open>
  C6. On an unprepared engine, \<open>connect\<close> with a device whose link is connected hands
  three buffers to the device, in this order: the tone of 524 Hz, the tone of 584 Hz, the
  version query. In the state \<open>s3\<close> reached after the third one the engine is not yet
  prepared and the monitoring loop has not been started; starting it is the next effect,
  and only then is the engine marked prepared. The command table is taken to know
  \<^verbatim>\<open>playTone\<close> and \<^verbatim>\<open>getVersion\<close>.
\<close>

theorem connect_sends_three_commands:
  assumes "\<not> prepared s" and "device_isConnected d"
    and "handler ''playTone'' = Some playTone" and "handler ''getVersion'' = Some getVersion"
  shows "let s3 = s\<lparr>device := Some d,
                     trace := trace s @
                       [Log (InfoPreparing (getAddress d)),
                        Listen d,
                        DeviceSend d (playTone [(''frequency'', 524), (''duration'', 240)]),
                        DeviceSend d (playTone [(''frequency'', 584), (''duration'', 240)]),
                        DeviceSend d (getVersion [])]\<rparr>
         in connect handler s (Some d) = (Inr True, (monitor s3 True)\<lparr>prepared := True\<rparr>)
            \<and> \<not> prepared s3
            \<and> trace (snd (connect handler s (Some d))) = trace s3 @ [MonitoringStart]
            \<and> prepared (snd (connect handler s (Some d)))"
  using assms
  by (simp add: connect_def prepare_known and_then_def monitor_def isConnected_def Let_def)

theorem connect_sends_three_commands_witness:
  "\<not> prepared (new_Api ()) \<and> device_isConnected first_device
   \<and> sample_handler ''playTone'' = Some (sample_encode 34)
   \<and> sample_handler ''getVersion'' = Some (sample_encode 0)
   \<and> trace (snd (connect sample_handler (new_Api ()) (Some first_device))) =
       [Log (InfoPreparing (getAddress first_device)),
        Listen first_device,
        DeviceSend first_device (Buffer [34, 12, 240]),
        DeviceSend first_device (Buffer [34, 72, 240]),
        DeviceSend first_device (Buffer [0]),
        MonitoringStart]
   \<and> prepared (snd (connect sample_handler (new_Api ()) (Some first_device)))"
proof -
  have h1: "\<not> prepared (new_Api ())" by (simp add: new_Api_def)
  have h2: "device_isConnected first_device" by (simp add: first_device_def)
  have h3: "sample_handler ''playTone'' = Some (sample_encode 34)"
    by (simp add: sample_handler_def)
  have h4: "sample_handler ''getVersion'' = Some (sample_encode 0)"
    by (simp add: sample_handler_def)
  have t: "trace (new_Api ()) = []" by (simp add: new_Api_def)
  have e1: "sample_encode 34 [(''frequency'', 524), (''duration'', 240)] = Buffer [34, 12, 240]"
    by (simp add: sample_encode_def)
  have e2: "sample_encode 34 [(''frequency'', 584), (''duration'', 240)] = Buffer [34, 72, 240]"
    by (simp add: sample_encode_def)
  have e3: "sample_encode 0 [] = Buffer [0]"
    by (simp add: sample_encode_def)
  note w = connect_sends_three_commands [OF h1 h2 h3 h4, unfolded Let_def]
  have c: "trace (snd (connect sample_handler (new_Api ()) (Some first_device))) =
       [Log (InfoPreparing (getAddress first_device)),
        Listen first_device,
        DeviceSend first_device (Buffer [34, 12, 240]),
        DeviceSend first_device (Buffer [34, 72, 240]),
        DeviceSend first_device (Buffer [0]),
        MonitoringStart]"
    using w [THEN conjunct2, THEN conjunct2, THEN conjunct1] t e1 e2 e3 by simp
  have p: "prepared (snd (connect sample_handler (new_Api ()) (Some first_device)))"
    using w [THEN conjunct2, THEN conjunct2, THEN conjunct2] .
  from h1 h2 h3 h4 c p show ?thesis by blast
qed

lemma send_fields:
  "device (send s b) = device s" "sensorDataCache (send s b) = sensorDataCache s"
  "prepared (send s b) = prepared s"
  by (simp_all add: send_def split: option.splits)

lemma exec_fields:
  "device (snd (exec handler s c p)) = device s"
  "sensorDataCache (snd (exec handler s c p)) = sensorDataCache s"
  by (simp_all add: exec_def send_fields split: option.splits)

lemma monitor_fields:
  "device (monitor s e) = device s" "sensorDataCache (monitor s e) = sensorDataCache s"
  by (simp_all add: monitor_def)

lemma and_then_snd:
  assumes "P (snd r)" and "\<And>s. P s \<Longrightarrow> P (snd (f s))"
  shows "P (snd (and_then r f))"
  using assms by (cases r) (auto simp add: and_then_def split: sum.splits)

lemma prepare_fields:
  "device (snd (prepare handler s)) = device s
   \<and> sensorDataCache (snd (prepare handler s)) = sensorDataCache s"
  by (auto simp add: prepare_def and_then_def exec_def send_def monitor_def
      split: option.splits)

lemma connect_fields:
  assumes "\<not> prepared s" and "device_isConnected d"
  shows "device (snd (connect handler s (Some d))) = Some d
         \<and> sensorDataCache (snd (connect handler s (Some d))) = sensorDataCache s"
proof -
  let ?s1 = "s\<lparr>trace := trace s @ [Log (InfoPreparing (getAddress d))], device := Some d\<rparr>"
  let ?P = "\<lambda>s'. device s' = Some d \<and> sensorDataCache s' = sensorDataCache s"
  have "?P (snd (prepare handler ?s1))"
    using prepare_fields [of handler ?s1] by simp
  then have "?P (snd (and_then (prepare handler ?s1) (\<lambda>s. (Inr True, s))))"
    by (intro and_then_snd [where P = ?P]) simp_all
  with assms show ?thesis
    by (simp add: connect_def)
qed

lemma reset_cache: "sensorDataCache (snd (reset handler s)) = Map.empty"
  unfolding reset_def Let_def
  by (cases "device s") (simp_all add: and_then_def exec_def send_def split: option.splits)

text \<open>
  C7, as amended. A prepared engine ignores \<open>connect\<close>: neither the device reference nor
  the cache changes. On an unprepared engine, \<open>connect\<close> with a device whose link is
  connected stores that device, replacing any previous reference, and leaves the sensor
  cache as it was (empty on a new engine). The cache is emptied by \<open>reset\<close>.
\<close>

theorem connect_keeps_cache:
  "(prepared s \<longrightarrow> connect handler s (Some d) = (Inr True, s))
   \<and> (\<not> prepared s \<and> device_isConnected d \<longrightarrow>
        device (snd (connect handler s (Some d))) = Some d
        \<and> sensorDataCache (snd (connect handler s (Some d))) = sensorDataCache s)
   \<and> sensorDataCache (snd (reset handler s)) = Map.empty"
  using connect_fields [of s d handler] reset_cache [of handler s]
  by (simp add: connect_def)

theorem connect_keeps_cache_witness:
  "prepared prepared_engine
   \<and> connect sample_handler prepared_engine (Some second_device) = (Inr True, prepared_engine)
   \<and> \<not> prepared (new_Api ()) \<and> device_isConnected second_device
   \<and> device (snd (connect sample_handler (new_Api ()) (Some second_device))) = Some second_device
   \<and> sensorDataCache (snd (connect sample_handler (new_Api ()) (Some second_device))) = Map.empty"
proof -
  have h1: "prepared prepared_engine" by (simp add: prepared_engine_def)
  have h2: "\<not> prepared (new_Api ())" by (simp add: new_Api_def)
  have h3: "device_isConnected second_device" by (simp add: second_device_def)
  have c: "sensorDataCache (new_Api ()) = Map.empty" by (simp add: new_Api_def)
  from connect_keeps_cache [of prepared_engine sample_handler second_device]
    connect_keeps_cache [of "new_Api ()" sample_handler second_device] h1 h2 h3 c
  show ?thesis by simp
qed

text \<open>
  C7 as stated fails: on an engine prepared on the first device, with a cached payload,
  \<open>connect\<close> with the second device, whose link is connected, keeps the first device
  and the cached payload.
\<close>

theorem connect_replaces_device_counterexample:
  "device_isConnected second_device
   \<and> device (snd (connect sample_handler prepared_engine (Some second_device))) \<noteq> Some second_device
   \<and> dom (sensorDataCache (snd (connect sample_handler prepared_engine (Some second_device)))) \<noteq> {}"
  by (simp add: connect_def prepared_engine_def second_device_def first_device_def)





text \<open>
  C9. With no device attached, \<open>exec\<close> of a command that the table knows raises nothing,
  sends nothing and leaves the engine (device reference, prepared flag, cache, trace of
  effects) exactly as it was.
\<close>

theorem exec_without_device:
  assumes "handler command = Some encode" and "device s = None"
  shows "exec handler s command data = (Inr (), s)"
  using assms by (simp add: exec_def handler_member_def send_def)

theorem exec_without_device_witness:
  "sample_handler ''stop'' = Some (sample_encode 5) \<and> device (new_Api ()) = None
   \<and> exec sample_handler (new_Api ()) ''stop'' [] = (Inr (), new_Api ())"
proof -
  have h1: "sample_handler ''stop'' = Some (sample_encode 5)" by (simp add: sample_handler_def)
  have h2: "device (new_Api ()) = None" by (simp add: new_Api_def)
  from exec_without_device
         [where handler = sample_handler and command = "''stop''" and s = "new_Api ()"
            and data = "[]", OF h1 h2] h1 h2
  show ?thesis by simp
qed

end
